theory Spec2Isabelle
  imports Complex_Main
begin

section \<open>JavaScript values\<close>

text \<open>
  Request bodies are parsed JSON, so the values a handler sees are the JSON values plus
  \<open>undefined\<close> (a missing property). A JavaScript number is a double: \<open>NaN\<close>, an infinity
  or a finite value, which is a rational number.
\<close>

datatype jsnum = NaN | Fin rat | PInf | NInf

datatype jsval =
    JUndefined
  | JNull
  | JBool bool
  | JNum jsnum
  | JStr string
  | JArr "jsval list"
  | JObj "(string \<times> jsval) list"

datatype error = TypeError | CastError | PersistenceError

type_synonym oid = string
type_synonym time = nat

text \<open>Truthiness, as \<open>||\<close>, \<open>!\<close> and \<open>if\<close> use it.\<close>

fun truthy_num :: "jsnum \<Rightarrow> bool" where
  "truthy_num NaN = False"
| "truthy_num (Fin r) = (r \<noteq> 0)"
| "truthy_num PInf = True"
| "truthy_num NInf = True"

fun truthy :: "jsval \<Rightarrow> bool" where
  "truthy JUndefined = False"
| "truthy JNull = False"
| "truthy (JBool b) = b"
| "truthy (JNum n) = truthy_num n"
| "truthy (JStr s) = (s \<noteq> [])"
| "truthy (JArr xs) = True"
| "truthy (JObj kvs) = True"

definition js_or :: "jsval \<Rightarrow> jsval \<Rightarrow> jsval" where
  "js_or a b = (if truthy a then a else b)"

text \<open>Comparisons of a number with the constants the handlers use; \<open>NaN\<close> compares false.\<close>

fun num_le0 :: "jsnum \<Rightarrow> bool" where
  "num_le0 NaN = False"
| "num_le0 (Fin r) = (r \<le> 0)"
| "num_le0 PInf = False"
| "num_le0 NInf = True"

fun num_lt1 :: "jsnum \<Rightarrow> bool" where
  "num_lt1 NaN = False"
| "num_lt1 (Fin r) = (r < 1)"
| "num_lt1 PInf = False"
| "num_lt1 NInf = True"

definition isNaN :: "jsnum \<Rightarrow> bool" where
  "isNaN n = (n = NaN)"

text \<open>
  Property access \<open>v.k\<close>: a \<open>TypeError\<close> on \<open>undefined\<close> and \<open>null\<close>, the own property
  of an object (the first binding of the key), \<open>undefined\<close> otherwise. None of the keys the
  handlers read is a built-in property of a string, number, boolean or array.
\<close>

fun get_prop :: "jsval \<Rightarrow> string \<Rightarrow> error + jsval" where
  "get_prop JUndefined k = Inl TypeError"
| "get_prop JNull k = Inl TypeError"
| "get_prop (JObj kvs) k = Inr (case map_of kvs k of None \<Rightarrow> JUndefined | Some v \<Rightarrow> v)"
| "get_prop v k = Inr JUndefined"

text \<open>\<open>String.prototype.trim\<close> on the ASCII white space and line terminators.\<close>

definition js_ws :: "char \<Rightarrow> bool" where
  "js_ws c = (c \<in> set [CHR '' '', CHR 0x09, CHR 0x0A, CHR 0x0B, CHR 0x0C, CHR 0x0D])"

definition trim :: "string \<Rightarrow> string" where
  "trim s = rev (dropWhile js_ws (rev (dropWhile js_ws s)))"

text \<open>\<open>String.prototype.toLowerCase\<close> on the ASCII letters.\<close>

definition upper_to_lower :: "char \<Rightarrow> char" where
  "upper_to_lower c =
     (let n = (of_char c :: nat) in if 65 \<le> n \<and> n \<le> 90 then char_of (n + 32) else c)"

definition toLowerCase :: "string \<Rightarrow> string" where
  "toLowerCase s = map upper_to_lower s"

text \<open>Decimal digits of an index, for the messages built with template strings.\<close>

fun show_nat :: "nat \<Rightarrow> string" where
  "show_nat n =
     (if n < 10 then [char_of (48 + n)] else show_nat (n div 10) @ [char_of (48 + n mod 10)])"

declare show_nat.simps [simp del]


section \<open>Data model\<close>

text \<open>A normalized line item, as \<open>createOrder\<close> builds it.\<close>

record item =
  menuItemId :: jsval
  name :: string
  price :: jsnum
  qty :: jsnum
  item_note :: jsval

text \<open>The payment sub-record: \<open>payment.status\<close>, \<open>payment.method\<close>, \<open>payment.paidAt\<close>,
  \<open>payment.refundedAt\<close>.\<close>

record payment =
  pay_status :: string
  pay_method :: "string option"
  paidAt :: "time option"
  refundedAt :: "time option"

text \<open>An order document. The type of the totals is that of the result of
  \<open>calculateOrderTotal\<close>.\<close>

record 't order =
  order_id :: oid
  tableId :: jsval
  customerId :: "oid option"
  orderNumber :: string
  items :: "item list"
  totals :: 't
  status :: string
  payment :: payment
  meta :: jsval
  createdAt :: time

record user =
  user_id :: oid
  role :: string

text \<open>A request as a handler receives it: \<open>req.body\<close>, \<open>req.params.id\<close>, \<open>req.query\<close>
  and \<open>req.user\<close> (set by the authentication middleware, absent otherwise).\<close>

record request =
  body :: jsval
  params_id :: string
  query :: jsval
  req_user :: "user option"

text \<open>The collection of orders, in insertion order.\<close>

type_synonym 't db = "'t order list"

text \<open>
  What the handlers use and these sources do not contain, taken as parameters: the
  built-ins \<open>parseFloat\<close>, \<open>parseInt(_, 10)\<close> and \<open>toString()\<close> of a value that is not a
  string (number parsing and printing are floating point; each may throw on an object that
  cannot be converted), double arithmetic for the pagination, the helper
  \<open>calculateOrderTotal\<close> of \<open>utils/helperUtils.js\<close>, the default payment sub-record of the
  \<open>Order\<close> schema, the cast of a string to an \<open>ObjectId\<close> (\<open>None\<close> is Mongoose's
  \<open>CastError\<close>), the \<open>message\<close> of a caught error, and the database cursor
  \<open>sort({createdAt: -1}).skip(s).limit(l)\<close>.
\<close>

record 't lib =
  parseFloat :: "jsval \<Rightarrow> error + jsnum"
  parseInt :: "jsval \<Rightarrow> error + jsnum"
  toString :: "jsval \<Rightarrow> error + string"
  num_sub :: "jsnum \<Rightarrow> jsnum \<Rightarrow> jsnum"
  num_mul :: "jsnum \<Rightarrow> jsnum \<Rightarrow> jsnum"
  ceil_div :: "nat \<Rightarrow> jsnum \<Rightarrow> jsnum"
  calculateOrderTotal :: "item list \<Rightarrow> 't"
  schema_payment :: payment
  castObjectId :: "string \<Rightarrow> oid option"
  err_message :: "error \<Rightarrow> string"
  cursor :: "'t order list \<Rightarrow> jsnum \<Rightarrow> jsnum \<Rightarrow> error + 't order list"

text \<open>
  What one call draws from its environment: the result of \<open>generateOrderNumber()\<close>, the
  \<open>_id\<close> and \<open>createdAt\<close> the new document gets, the value of \<open>new Date()\<close>, and whether
  \<open>order.save()\<close> rejects (schema validation or the database).
\<close>

record world =
  generateOrderNumber :: string
  new_id :: oid
  now :: time
  save_rejects :: bool

section \<open>Responses\<close>

datatype 't rdata =
    DNone
  | DCreated oid string string 't time
  | DStatus oid string
  | DPayment oid payment string
  | DList "'t order list" jsnum jsnum nat jsnum
  | DId oid

record 't response =
  code :: nat
  success :: bool
  message :: string
  errors :: "string list"
  data :: "'t rdata"

text \<open>A handler wrapped in \<open>asyncHandler\<close> either sends a response or hands an error that
  it did not catch to the error-handling middleware.\<close>

datatype 't outcome = Responded "'t response" | Thrown error

definition reply :: "nat \<Rightarrow> bool \<Rightarrow> string \<Rightarrow> string list \<Rightarrow> 't rdata \<Rightarrow> 't outcome" where
  "reply c ok msg errs d =
     Responded \<lparr>code = c, success = ok, message = msg, errors = errs, data = d\<rparr>"

definition bind_err :: "error + 'a \<Rightarrow> ('a \<Rightarrow> error + 'b) \<Rightarrow> error + 'b" where
  "bind_err x f = (case x of Inl e \<Rightarrow> Inl e | Inr v \<Rightarrow> f v)"

fun map_err :: "('a \<Rightarrow> error + 'b) \<Rightarrow> 'a list \<Rightarrow> error + 'b list" where
  "map_err f [] = Inr []"
| "map_err f (x # xs) =
     bind_err (f x) (\<lambda>y. bind_err (map_err f xs) (\<lambda>ys. Inr (y # ys)))"

section \<open>Order creation\<close>

text \<open>
  The object literal of \<open>items.map\<close>: \<open>it.menuItemId\<close>,
  \<open>(it.name || '').toString().trim()\<close>, \<open>parseFloat(it.price)\<close>,
  \<open>parseInt(it.quantity || it.qty, 10) || 1\<close> and \<open>it.note || ''\<close>, evaluated in this
  order. \<open>toString()\<close> of a string is the string itself.
\<close>

definition name_of :: "'t lib \<Rightarrow> jsval \<Rightarrow> error + string" where
  "name_of L v =
     (case js_or v (JStr []) of
        JStr s \<Rightarrow> Inr (trim s)
      | x \<Rightarrow> bind_err (toString L x) (\<lambda>s. Inr (trim s)))"

definition qty_of :: "'t lib \<Rightarrow> jsval \<Rightarrow> jsval \<Rightarrow> error + jsnum" where
  "qty_of L quantity q =
     bind_err (parseInt L (js_or quantity q))
       (\<lambda>n. Inr (if truthy_num n then n else Fin 1))"

definition normalize_item :: "'t lib \<Rightarrow> jsval \<Rightarrow> error + item" where
  "normalize_item L it =
     bind_err (get_prop it ''menuItemId'') (\<lambda>mid.
     bind_err (get_prop it ''name'') (\<lambda>nm.
     bind_err (name_of L nm) (\<lambda>nm'.
     bind_err (get_prop it ''price'') (\<lambda>pr.
     bind_err (parseFloat L pr) (\<lambda>pr'.
     bind_err (get_prop it ''quantity'') (\<lambda>quantity.
     bind_err (get_prop it ''qty'') (\<lambda>q.
     bind_err (qty_of L quantity q) (\<lambda>q'.
     bind_err (get_prop it ''note'') (\<lambda>nt.
       Inr \<lparr>menuItemId = mid, name = nm', price = pr', qty = q',
            item_note = js_or nt (JStr [])\<rparr>)))))))))"

text \<open>The body of the \<open>forEach\<close> that validates the normalized item at index \<open>i\<close>.\<close>

definition item_label :: "nat \<Rightarrow> item \<Rightarrow> string" where
  "item_label i it = (if name it \<noteq> [] then name it else ''at index '' @ show_nat i)"

definition item_errors :: "nat \<Rightarrow> item \<Rightarrow> string list" where
  "item_errors i it =
     (if name it = [] then [''Item at index '' @ show_nat i @ '' is missing a name''] else [])
   @ (if isNaN (price it) \<or> num_le0 (price it)
      then [''Item '' @ [CHR 0x27] @ item_label i it @ [CHR 0x27] @ '' has an invalid price'']
      else [])
   @ (if isNaN (qty it) \<or> num_lt1 (qty it)
      then [''Item '' @ [CHR 0x27] @ item_label i it @ [CHR 0x27] @ '' has an invalid quantity'']
      else [])"

fun validate_items :: "nat \<Rightarrow> item list \<Rightarrow> string list" where
  "validate_items i [] = []"
| "validate_items i (it # its) = item_errors i it @ validate_items (Suc i) its"

text \<open>\<open>typeof tableId === 'string' ? tableId.trim() : tableId || null\<close>\<close>

definition normalizedTableId :: "jsval \<Rightarrow> jsval" where
  "normalizedTableId t = (case t of JStr s \<Rightarrow> JStr (trim s) | _ \<Rightarrow> js_or t JNull)"

text \<open>A destructuring default applies to a property that is \<open>undefined\<close>.\<close>

definition default_to :: "jsval \<Rightarrow> jsval \<Rightarrow> jsval" where
  "default_to v d = (if v = JUndefined then d else v)"

definition new_order :: "'t lib \<Rightarrow> world \<Rightarrow> request \<Rightarrow> jsval \<Rightarrow> item list \<Rightarrow> jsval \<Rightarrow> 't order" where
  "new_order L W req tid its m =
     \<lparr>order_id = new_id W,
      tableId = normalizedTableId tid,
      customerId = (case req_user req of Some u \<Rightarrow> Some (user_id u) | None \<Rightarrow> None),
      orderNumber = generateOrderNumber W,
      items = its,
      totals = calculateOrderTotal L its,
      status = ''placed'',
      payment = schema_payment L,
      meta = js_or m (JObj []),
      createdAt = now W\<rparr>"

definition createOrder :: "'t lib \<Rightarrow> world \<Rightarrow> 't db \<Rightarrow> request \<Rightarrow> 't outcome \<times> 't db" where
  "createOrder L W db req =
     (case get_prop (body req) ''tableId'' of
        Inl e \<Rightarrow> (Thrown e, db)
      | Inr tid \<Rightarrow>
     (case get_prop (body req) ''items'' of
        Inl e \<Rightarrow> (Thrown e, db)
      | Inr items0 \<Rightarrow>
     (case get_prop (body req) ''meta'' of
        Inl e \<Rightarrow> (Thrown e, db)
      | Inr meta0 \<Rightarrow>
     (case default_to items0 (JArr []) of
        JArr xs \<Rightarrow>
          if xs = [] then
            (reply 400 False ''Order must contain at least one item'' [] DNone, db)
          else
            (case map_err (normalize_item L) xs of
               Inl e \<Rightarrow> (Thrown e, db)
             | Inr normalizedItems \<Rightarrow>
                 let errs = validate_items 0 normalizedItems in
                 if errs \<noteq> [] then
                   (reply 400 False ''Validation failed'' errs DNone, db)
                 else
                   let order = new_order L W req tid normalizedItems
                                 (default_to meta0 (JObj [])) in
                   if save_rejects W then
                     (reply 500 False ''Failed to place order'' [] DNone, db)
                   else
                     (reply 201 True ''Order placed successfully'' []
                        (DCreated (order_id order) (orderNumber order) (status order)
                           (totals order) (createdAt order)),
                      db @ [order]))
      | _ \<Rightarrow> (reply 400 False ''Order must contain at least one item'' [] DNone, db)))))"

section \<open>Database operations\<close>

text \<open>\<open>findById\<close>, and \<open>findOneAndUpdate\<close>/\<open>findByIdAndUpdate\<close> with \<open>{new: true}\<close>: the
  first document with the id that satisfies the rest of the filter is updated and
  returned as updated; \<open>null\<close> when there is none.\<close>

definition findById :: "'t lib \<Rightarrow> 't db \<Rightarrow> string \<Rightarrow> error + 't order option" where
  "findById L db i =
     (case castObjectId L i of
        None \<Rightarrow> Inl CastError
      | Some k \<Rightarrow> Inr (find (\<lambda>d. order_id d = k) db))"

fun update_first :: "('a \<Rightarrow> bool) \<Rightarrow> ('a \<Rightarrow> 'a) \<Rightarrow> 'a list \<Rightarrow> 'a list" where
  "update_first P f [] = []"
| "update_first P f (x # xs) = (if P x then f x # xs else x # update_first P f xs)"

definition findOneAndUpdate ::
  "'t lib \<Rightarrow> 't db \<Rightarrow> string \<Rightarrow> ('t order \<Rightarrow> bool) \<Rightarrow> ('t order \<Rightarrow> 't order)
     \<Rightarrow> error + ('t order option \<times> 't db)" where
  "findOneAndUpdate L db i P f =
     (case castObjectId L i of
        None \<Rightarrow> Inl CastError
      | Some k \<Rightarrow>
          (case find (\<lambda>d. order_id d = k \<and> P d) db of
             None \<Rightarrow> Inr (None, db)
           | Some d \<Rightarrow> Inr (Some (f d), update_first (\<lambda>d. order_id d = k \<and> P d) f db)))"

section \<open>Status update\<close>

definition order_statuses :: "string list" where
  "order_statuses = [''placed'', ''preparing'', ''ready'', ''served'', ''canceled'', ''completed'']"

text \<open>
  Modelled from the spec: \<open>isValidOrderStatus\<close> of \<open>utils/validationUtils.js\<close>, which is not
  among the sources. The spec gives the status as ``one of
  placed/preparing/ready/served/canceled/completed'' and the check as ``validating enum
  membership''.
\<close>

definition isValidOrderStatus :: "jsval \<Rightarrow> bool" where
  "isValidOrderStatus v = (case v of JStr s \<Rightarrow> s \<in> set order_statuses | _ \<Rightarrow> False)"

text \<open>The string that \<open>$set\<close> stores for a status value (a valid status is a string).\<close>

definition str_of :: "jsval \<Rightarrow> string" where
  "str_of v = (case v of JStr s \<Rightarrow> s | _ \<Rightarrow> [])"

definition updateOrderStatus :: "'t lib \<Rightarrow> 't db \<Rightarrow> request \<Rightarrow> 't outcome \<times> 't db" where
  "updateOrderStatus L db req =
     (case get_prop (body req) ''status'' of
        Inl e \<Rightarrow> (Thrown e, db)
      | Inr st \<Rightarrow>
          if \<not> isValidOrderStatus st then (reply 400 False ''Invalid status'' [] DNone, db)
          else
            (case findOneAndUpdate L db (params_id req) (\<lambda>d. True)
                    (\<lambda>d. d\<lparr>status := str_of st\<rparr>) of
               Inl e \<Rightarrow> (Thrown e, db)
             | Inr (None, db') \<Rightarrow> (reply 404 False ''Order not found'' [] DNone, db')
             | Inr (Some updatedOrder, db') \<Rightarrow>
                 (reply 200 True ''Order status updated'' []
                    (DStatus (order_id updatedOrder) (status updatedOrder)), db')))"

section \<open>Payment update\<close>

definition validPaymentStatuses :: "string list" where
  "validPaymentStatuses = [''pending'', ''paid'', ''failed'', ''refunded'']"

text \<open>\<open>v.toLowerCase().trim()\<close>: a \<open>TypeError\<close> unless \<open>v\<close> is a string.\<close>

definition lower_trim :: "jsval \<Rightarrow> error + string" where
  "lower_trim v = (case v of JStr s \<Rightarrow> Inr (trim (toLowerCase s)) | _ \<Rightarrow> Inl TypeError)"

text \<open>\<open>if (method) method = method.toLowerCase().trim()\<close>; afterwards \<open>if (method)\<close> decides
  whether \<open>payment.method\<close> is written.\<close>

definition normalize_method :: "jsval \<Rightarrow> error + string option" where
  "normalize_method m =
     (if truthy m then bind_err (lower_trim m) (\<lambda>s. Inr (if s \<noteq> [] then Some s else None))
      else Inr None)"

text \<open>The \<open>$set\<close> of \<open>updateData\<close>: \<open>payment.status\<close> always, \<open>payment.paidAt\<close> or
  \<open>payment.refundedAt\<close> by the status, \<open>payment.method\<close> when given, and \<open>status\<close> when the
  payment is paid and the order that \<open>findById\<close> returned is served.\<close>

definition set_payment :: "time \<Rightarrow> string \<Rightarrow> string option \<Rightarrow> payment \<Rightarrow> payment" where
  "set_payment t st m p =
     p\<lparr>pay_status := st,
       paidAt := (if st = ''paid'' then Some t else paidAt p),
       refundedAt := (if st \<noteq> ''paid'' \<and> st = ''refunded'' then Some t else refundedAt p),
       pay_method := (case m of Some x \<Rightarrow> Some x | None \<Rightarrow> pay_method p)\<rparr>"

definition apply_updateData ::
  "time \<Rightarrow> string \<Rightarrow> string option \<Rightarrow> bool \<Rightarrow> 't order \<Rightarrow> 't order" where
  "apply_updateData t st m promote d =
     (let d' = d\<lparr>payment := set_payment t st m (payment d)\<rparr>
      in if promote then d'\<lparr>status := ''completed''\<rparr> else d')"

definition updateOrderPayment :: "'t lib \<Rightarrow> world \<Rightarrow> 't db \<Rightarrow> request \<Rightarrow> 't outcome \<times> 't db" where
  "updateOrderPayment L W db req =
     (case get_prop (body req) ''status'' of
        Inl e \<Rightarrow> (Thrown e, db)
      | Inr st0 \<Rightarrow>
     (case get_prop (body req) ''method'' of
        Inl e \<Rightarrow> (Thrown e, db)
      | Inr m0 \<Rightarrow>
     (case lower_trim st0 of
        Inl e \<Rightarrow> (Thrown e, db)
      | Inr st \<Rightarrow>
     (case normalize_method m0 of
        Inl e \<Rightarrow> (Thrown e, db)
      | Inr m \<Rightarrow>
          if st \<notin> set validPaymentStatuses then
            (reply 400 False ''Invalid payment status''
               [''Payment status must be one of: pending, paid, failed, refunded''] DNone, db)
          else
            (case findById L db (params_id req) of
               Inl e \<Rightarrow> (reply 500 False ''Failed to update payment'' [err_message L e] DNone, db)
             | Inr None \<Rightarrow> (reply 404 False ''Order not found'' [] DNone, db)
             | Inr (Some order) \<Rightarrow>
                 (case findOneAndUpdate L db (params_id req) (\<lambda>d. True)
                         (apply_updateData (now W) st m
                            (st = ''paid'' \<and> status order = ''served'')) of
                    Inl e \<Rightarrow>
                      (reply 500 False ''Failed to update payment'' [err_message L e] DNone, db)
                  | Inr (None, db') \<Rightarrow>
                      (reply 500 False ''Failed to update payment'' [err_message L TypeError]
                         DNone, db')
                  | Inr (Some updatedOrder, db') \<Rightarrow>
                      (reply 200 True ''Order payment updated successfully'' []
                         (DPayment (order_id updatedOrder) (payment updatedOrder)
                            (status updatedOrder)), db')))))))"

section \<open>Cancellation\<close>

text \<open>One \<open>findOneAndUpdate\<close> whose filter carries the precondition
  \<open>status: {$nin: ['completed', 'canceled']}\<close>.\<close>

definition cancelOrder :: "'t lib \<Rightarrow> 't db \<Rightarrow> request \<Rightarrow> 't outcome \<times> 't db" where
  "cancelOrder L db req =
     (case findOneAndUpdate L db (params_id req)
             (\<lambda>d. status d \<notin> set [''completed'', ''canceled''])
             (\<lambda>d. d\<lparr>status := ''canceled''\<rparr>) of
        Inl e \<Rightarrow> (Thrown e, db)
      | Inr (None, db') \<Rightarrow>
          (reply 404 False ''Order not found or cannot be canceled'' [] DNone, db')
      | Inr (Some updatedOrder, db') \<Rightarrow>
          (reply 200 True ''Order canceled'' [] (DId (order_id updatedOrder)), db'))"

section \<open>Listing\<close>

text \<open>The filter that \<open>listOrders\<close> builds: each field is a condition of equality when it
  is set.\<close>

record order_query =
  q_tableId :: "jsval option"
  q_status :: "jsval option"
  q_customerId :: "oid option"

definition is_staff :: "user \<Rightarrow> bool" where
  "is_staff u = (role u \<in> set [''staff'', ''admin''])"

definition list_query_of :: "user \<Rightarrow> jsval \<Rightarrow> error + order_query" where
  "list_query_of u qs =
     (if is_staff u then
        bind_err (get_prop qs ''tableId'') (\<lambda>t.
        bind_err (get_prop qs ''status'') (\<lambda>s.
          Inr \<lparr>q_tableId = (if truthy t then Some t else None),
               q_status = (if truthy s \<and> isValidOrderStatus s then Some s else None),
               q_customerId = None\<rparr>))
      else Inr \<lparr>q_tableId = None, q_status = None, q_customerId = Some (user_id u)\<rparr>)"

definition matches :: "order_query \<Rightarrow> 't order \<Rightarrow> bool" where
  "matches q d =
     ((case q_tableId q of None \<Rightarrow> True | Some v \<Rightarrow> tableId d = v)
    \<and> (case q_status q of None \<Rightarrow> True | Some v \<Rightarrow> JStr (status d) = v)
    \<and> (case q_customerId q of None \<Rightarrow> True | Some k \<Rightarrow> customerId d = Some k))"

text \<open>\<open>parseInt(v, 10) || dflt\<close>\<close>

definition parseInt_or :: "'t lib \<Rightarrow> jsval \<Rightarrow> jsnum \<Rightarrow> error + jsnum" where
  "parseInt_or L v dflt = bind_err (parseInt L v) (\<lambda>n. Inr (if truthy_num n then n else dflt))"

text \<open>The \<open>try\<close> block of \<open>listOrders\<close>; an error in it is answered with 500.\<close>

definition list_page :: "'t lib \<Rightarrow> 't db \<Rightarrow> jsval \<Rightarrow> order_query \<Rightarrow> error + 't rdata" where
  "list_page L db qs q =
     bind_err (get_prop qs ''page'') (\<lambda>pg.
     bind_err (parseInt_or L pg (Fin 1)) (\<lambda>page.
     bind_err (get_prop qs ''limit'') (\<lambda>lm.
     bind_err (parseInt_or L lm (Fin 20)) (\<lambda>limit.
       let skip = num_mul L (num_sub L page (Fin 1)) limit;
           total = length (filter (matches q) db)
       in bind_err (cursor L (filter (matches q) db) skip limit) (\<lambda>orders.
            Inr (DList orders page limit total (ceil_div L total limit)))))))"

definition listOrders :: "'t lib \<Rightarrow> 't db \<Rightarrow> request \<Rightarrow> 't outcome \<times> 't db" where
  "listOrders L db req =
     (case req_user req of
        None \<Rightarrow> (reply 401 False ''Authentication required to list orders'' [] DNone, db)
      | Some u \<Rightarrow>
          (case list_query_of u (query req) of
             Inl e \<Rightarrow> (Thrown e, db)
           | Inr q \<Rightarrow>
               (case list_page L db (query req) q of
                  Inl e \<Rightarrow> (reply 500 False ''Failed to retrieve orders'' [] DNone, db)
                | Inr d \<Rightarrow> (reply 200 True ''Orders retrieved'' [] d, db))))"


section \<open>Routes\<close>

text \<open>
  The validators of \<open>express-validator\<close> that the chains of the validation middleware
  use, each as the library applies it to the value of a field: \<open>isMongoId()\<close>,
  \<open>isInt({min: 1})\<close> and \<open>isIn(values)\<close>. The library is not part of the sources; the
  validators are parameters.
\<close>

record validators =
  isMongoId :: "jsval \<Rightarrow> bool"
  isInt_min1 :: "jsval \<Rightarrow> bool"
  isIn :: "string list \<Rightarrow> jsval \<Rightarrow> bool"

text \<open>A field of the body as a validation chain selects it: a missing path is
  \<open>undefined\<close>; the wildcard \<open>*\<close> ranges over the elements of an array and the values of
  an object.\<close>

definition safe_get :: "jsval \<Rightarrow> string \<Rightarrow> jsval" where
  "safe_get v k = (case get_prop v k of Inl e \<Rightarrow> JUndefined | Inr x \<Rightarrow> x)"


definition isArray :: "jsval \<Rightarrow> bool" where
  "isArray v = (case v of JArr xs \<Rightarrow> True | _ \<Rightarrow> False)"


definition validateOrderStatus :: "validators \<Rightarrow> jsval \<Rightarrow> string list" where
  "validateOrderStatus V b =
     (if isIn V order_statuses (safe_get b ''status'') then [] else [''Invalid order status''])"


definition validate_id :: "validators \<Rightarrow> request \<Rightarrow> string list" where
  "validate_id V req =
     (if isMongoId V (JStr (params_id req)) then [] else [''Invalid order ID''])"

definition handleValidationErrors ::
  "string list \<Rightarrow> 't db \<Rightarrow> 't outcome \<times> 't db \<Rightarrow> 't outcome \<times> 't db" where
  "handleValidationErrors errs db nxt =
     (if errs \<noteq> [] then (reply 400 False ''Validation failed'' errs DNone, db) else nxt)"

text \<open>
  Modelled from the spec: \<open>authenticate\<close> of \<open>middleware/authMiddleware.js\<close> and
  \<open>requireStaff\<close> of \<open>middleware/roleMiddleware.js\<close>, which are not among the sources. The
  spec reports ``401 unauthenticated, 403 unauthorized'' and restricts the status and
  payment updates to staff/admin. \<open>req_user\<close> of the incoming request is the user its
  credentials identify.
\<close>

definition authenticate :: "request \<Rightarrow> 't db \<Rightarrow> 't outcome \<times> 't db \<Rightarrow> 't outcome \<times> 't db" where
  "authenticate req db nxt =
     (case req_user req of
        None \<Rightarrow> (reply 401 False ''Authentication required'' [] DNone, db)
      | Some u \<Rightarrow> nxt)"

definition requireStaff :: "request \<Rightarrow> 't db \<Rightarrow> 't outcome \<times> 't db \<Rightarrow> 't outcome \<times> 't db" where
  "requireStaff req db nxt =
     (case req_user req of
        None \<Rightarrow> (reply 401 False ''Authentication required'' [] DNone, db)
      | Some u \<Rightarrow> if is_staff u then nxt else (reply 403 False ''Access denied'' [] DNone, db))"


definition route_listOrders :: "'t lib \<Rightarrow> 't db \<Rightarrow> request \<Rightarrow> 't outcome \<times> 't db" where
  "route_listOrders L db req = authenticate req db (listOrders L db req)"

definition route_updateOrderStatus ::
  "validators \<Rightarrow> 't lib \<Rightarrow> 't db \<Rightarrow> request \<Rightarrow> 't outcome \<times> 't db" where
  "route_updateOrderStatus V L db req =
     authenticate req db
       (requireStaff req db
          (handleValidationErrors (validateOrderStatus V (body req)) db
             (updateOrderStatus L db req)))"


definition route_cancelOrder ::
  "validators \<Rightarrow> 't lib \<Rightarrow> 't db \<Rightarrow> request \<Rightarrow> 't outcome \<times> 't db" where
  "route_cancelOrder V L db req =
     authenticate req db
       (handleValidationErrors (validate_id V req) db (cancelOrder L db req))"

section \<open>The words of the specification\<close>








section \<open>A concrete environment\<close>

text \<open>
  One instance of the parameters, for evaluating the handlers on concrete requests. It
  agrees with the built-ins on the values the examples use: \<open>parseFloat\<close> and \<open>parseInt\<close>
  of a number that is an integer are the number, of a value that is not numeric \<open>NaN\<close>.
  The totals are the sum of price times quantity.
\<close>

definition example_number :: "jsval \<Rightarrow> error + jsnum" where
  "example_number v = (case v of JNum n \<Rightarrow> Inr n | _ \<Rightarrow> Inr NaN)"

definition example_arith :: "(rat \<Rightarrow> rat \<Rightarrow> rat) \<Rightarrow> jsnum \<Rightarrow> jsnum \<Rightarrow> jsnum" where
  "example_arith f a b = (case (a, b) of (Fin x, Fin y) \<Rightarrow> Fin (f x y) | _ \<Rightarrow> NaN)"

definition example_total :: "item list \<Rightarrow> rat" where
  "example_total its =
     sum_list (map (\<lambda>it. case (price it, qty it) of (Fin p, Fin q) \<Rightarrow> p * q | _ \<Rightarrow> 0) its)"

definition example_cursor :: "rat order list \<Rightarrow> jsnum \<Rightarrow> jsnum \<Rightarrow> error + rat order list" where
  "example_cursor xs s l =
     (case (s, l) of
        (Fin a, Fin b) \<Rightarrow>
          if 0 \<le> a \<and> 0 < b then Inr (take (nat \<lfloor>b\<rfloor>) (drop (nat \<lfloor>a\<rfloor>) xs))
          else Inl PersistenceError
      | _ \<Rightarrow> Inl PersistenceError)"

definition example_lib :: "rat lib" where
  "example_lib =
     \<lparr>parseFloat = example_number,
      parseInt = example_number,
      toString = (\<lambda>v. Inr ''[object Object]''),
      num_sub = example_arith (\<lambda>x y. x - y),
      num_mul = example_arith (\<lambda>x y. x * y),
      ceil_div = (\<lambda>n l. case l of Fin r \<Rightarrow> if 0 < r then Fin (of_int \<lceil>of_nat n / r\<rceil>) else NaN
                          | _ \<Rightarrow> NaN),
      calculateOrderTotal = example_total,
      schema_payment =
        \<lparr>pay_status = ''pending'', pay_method = None, paidAt = None, refundedAt = None\<rparr>,
      castObjectId = (\<lambda>s. if length s = 24 then Some s else None),
      err_message = (\<lambda>e. ''Cast to ObjectId failed''),
      cursor = example_cursor\<rparr>"

definition example_validators :: validators where
  "example_validators =
     \<lparr>isMongoId = (\<lambda>v. case v of JStr s \<Rightarrow> length s = 24 | _ \<Rightarrow> False),
      isInt_min1 = (\<lambda>v. case v of JNum (Fin r) \<Rightarrow> of_int \<lfloor>r\<rfloor> = r \<and> 1 \<le> r | _ \<Rightarrow> False),
      isIn = (\<lambda>xs v. case v of JStr s \<Rightarrow> s \<in> set xs | _ \<Rightarrow> False)\<rparr>"

definition example_world :: world where
  "example_world =
     \<lparr>generateOrderNumber = ''ORD-1001'', new_id = ''64b000000000000000000003'',
      now = 1700000500, save_rejects = False\<rparr>"

definition tea :: item where
  "tea = \<lparr>menuItemId = JStr ''64a000000000000000000001'', name = ''Tea'', price = Fin 3,
          qty = Fin 2, item_note = JStr []\<rparr>"

definition example_order :: "oid \<Rightarrow> oid option \<Rightarrow> string \<Rightarrow> rat order" where
  "example_order k c s =
     \<lparr>order_id = k, tableId = JNull, customerId = c, orderNumber = ''ORD-1000'',
      items = [tea], totals = 6, status = s,
      payment = \<lparr>pay_status = ''pending'', pay_method = None, paidAt = None,
                 refundedAt = None\<rparr>,
      meta = JObj [], createdAt = 1700000000\<rparr>"

definition alice :: user where
  "alice = \<lparr>user_id = ''64c000000000000000000001'', role = ''customer''\<rparr>"

definition bob :: user where
  "bob = \<lparr>user_id = ''64c000000000000000000002'', role = ''customer''\<rparr>"

definition sam :: user where
  "sam = \<lparr>user_id = ''64c000000000000000000009'', role = ''staff''\<rparr>"

text \<open>Two orders: a served one of Alice and a completed one of Bob.\<close>

definition example_db :: "rat db" where
  "example_db =
     [example_order ''64b000000000000000000001'' (Some (user_id alice)) ''served'',
      example_order ''64b000000000000000000002'' (Some (user_id bob)) ''completed'']"

definition example_request :: "jsval \<Rightarrow> string \<Rightarrow> user option \<Rightarrow> request" where
  "example_request b i u = \<lparr>body = b, params_id = i, query = JObj [], req_user = u\<rparr>"

definition tea_item :: "jsval \<Rightarrow> jsval \<Rightarrow> jsval \<Rightarrow> jsval" where
  "tea_item nm pr q =
     JObj [(''menuItemId'', JStr ''64a000000000000000000001''), (''name'', nm),
           (''price'', pr), (''quantity'', q)]"

section \<open>Evaluation and auxiliary facts\<close>

lemmas eval_defs =
  example_request_def example_lib_def example_world_def example_db_def example_order_def
  example_validators_def tea_def tea_item_def alice_def bob_def sam_def example_number_def
  example_arith_def example_total_def example_cursor_def
  updateOrderPayment_def updateOrderStatus_def cancelOrder_def createOrder_def listOrders_def
  findById_def findOneAndUpdate_def lower_trim_def normalize_method_def set_payment_def
  apply_updateData_def validPaymentStatuses_def order_statuses_def isValidOrderStatus_def
  str_of_def trim_def toLowerCase_def upper_to_lower_def js_ws_def bind_err_def reply_def
  normalize_item_def name_of_def qty_of_def js_or_def item_errors_def item_label_def
  normalizedTableId_def default_to_def new_order_def isNaN_def Let_def

lemma map_update_first:
  "(\<And>x. P x \<Longrightarrow> g (f x) = g x) \<Longrightarrow> map g (update_first P f xs) = map g xs"
  by (induction xs) auto

lemma find_update_first:
  "(\<And>x. P x \<Longrightarrow> P (f x)) \<Longrightarrow> find P (update_first P f xs) = map_option f (find P xs)"
  by (induction xs) auto

text \<open>Document ids are unique in a collection; then the id selects one document.\<close>

lemma find_unique_id:
  "distinct (map order_id db) \<Longrightarrow> d \<in> set db \<Longrightarrow>
   find (\<lambda>x. order_id x = order_id d \<and> P x) db = (if P d then Some d else None)"
proof (induction db)
  case Nil
  then show ?case by simp
next
  case (Cons a db)
  show ?case
  proof (cases "a = d")
    case True
    with Cons.prems have "\<forall>x\<in>set db. order_id x \<noteq> order_id d"
      by (auto simp: image_iff)
    then have "find (\<lambda>x. order_id x = order_id d \<and> P x) db = None"
      by (auto simp: find_None_iff)
    with True show ?thesis by simp
  next
    case False
    with Cons.prems have "d \<in> set db" "order_id a \<noteq> order_id d" by force+
    with Cons show ?thesis by simp
  qed
qed

lemma update_first_unique_id:
  "distinct (map order_id db) \<Longrightarrow>
   update_first (\<lambda>x. order_id x = k \<and> P x) f db =
   map (\<lambda>x. if order_id x = k \<and> P x then f x else x) db"
proof (induction db)
  case Nil
  then show ?case by simp
next
  case (Cons a db)
  show ?case
  proof (cases "order_id a = k \<and> P a")
    case True
    with Cons.prems have "\<forall>x\<in>set db. order_id x \<noteq> k"
      by (auto simp: image_iff)
    then have "map (\<lambda>x. if order_id x = k \<and> P x then f x else x) db = db"
      by (simp add: map_idI)
    with True show ?thesis by simp
  next
    case False
    with Cons show ?thesis by auto
  qed
qed

lemma findOneAndUpdate_frame:
  assumes "\<And>x. g (f x) = g x"
    and "findOneAndUpdate L db i P f = Inr (r, db')"
  shows "map g db' = map g db"
  using assms
  by (auto simp: findOneAndUpdate_def map_update_first split: option.splits)

lemma updateOrderStatus_frame:
  fixes g :: "'t order \<Rightarrow> 'b"
  assumes "\<And>x s. g (x\<lparr>status := s\<rparr>) = g x"
  shows "map g (snd (updateOrderStatus L db req)) = map g db"
  using assms
  by (auto simp: updateOrderStatus_def dest!: findOneAndUpdate_frame [where g = g, rotated]
           split: sum.splits option.splits prod.splits)

lemma updateOrderPayment_frame:
  fixes g :: "'t order \<Rightarrow> 'b"
  assumes "\<And>x s. g (x\<lparr>status := s\<rparr>) = g x" and "\<And>x p. g (x\<lparr>payment := p\<rparr>) = g x"
  shows "map g (snd (updateOrderPayment L W db req)) = map g db"
  using assms
  by (auto simp: updateOrderPayment_def apply_updateData_def Let_def
           dest!: findOneAndUpdate_frame [where g = g, rotated]
           split: sum.splits option.splits prod.splits)

lemma unique_id:
  "distinct (map order_id db) \<Longrightarrow> d \<in> set db \<Longrightarrow> x \<in> set db \<Longrightarrow>
   order_id x = order_id d \<Longrightarrow> x = d"
  by (auto simp: distinct_map dest: inj_onD)

lemma get_prop_other:
  "get_prop b k = Inr v \<Longrightarrow> get_prop b k' = Inr (safe_get b k')"
  by (cases b) (auto simp: safe_get_def)

lemma findOneAndUpdate_by_id:
  assumes "castObjectId L i = Some (order_id d)" and "d \<in> set db"
      and "distinct (map order_id db)"
  shows "findOneAndUpdate L db i P f =
           Inr (if P d
                then (Some (f d), map (\<lambda>x. if order_id x = order_id d then f x else x) db)
                else (None, db))"
proof (cases "P d")
  case True
  have "map (\<lambda>x. if order_id x = order_id d \<and> P x then f x else x) db
          = map (\<lambda>x. if order_id x = order_id d then f x else x) db"
    using assms True by (auto dest: unique_id)
  with assms True show ?thesis
    by (simp add: findOneAndUpdate_def find_unique_id update_first_unique_id)
next
  case False
  with assms show ?thesis
    by (simp add: findOneAndUpdate_def find_unique_id)
qed

lemma findById_by_id:
  assumes "castObjectId L i = Some (order_id d)" and "d \<in> set db"
      and "distinct (map order_id db)"
  shows "findById L db i = Inr (Some d)"
  using assms find_unique_id [of db d "\<lambda>x. True"] by (simp add: findById_def)

lemma updateOrderStatus_by_id:
  assumes "get_prop (body req) ''status'' = Inr (JStr s)" and "s \<in> set order_statuses"
      and "castObjectId L (params_id req) = Some (order_id d)"
      and "d \<in> set db" and "distinct (map order_id db)"
  shows "updateOrderStatus L db req =
           (reply 200 True ''Order status updated'' [] (DStatus (order_id d) s),
            map (\<lambda>x. if order_id x = order_id d then x\<lparr>status := s\<rparr> else x) db)"
  using assms
  by (simp add: updateOrderStatus_def isValidOrderStatus_def str_of_def findOneAndUpdate_by_id)

lemma updateOrderPayment_by_id:
  assumes "get_prop (body req) ''status'' = Inr (JStr s)"
      and "trim (toLowerCase s) \<in> set validPaymentStatuses"
      and "normalize_method (safe_get (body req) ''method'') = Inr m"
      and "castObjectId L (params_id req) = Some (order_id d)"
      and "d \<in> set db" and "distinct (map order_id db)"
  shows "updateOrderPayment L W db req =
     (let st = trim (toLowerCase s);
          f = apply_updateData (now W) st m (st = ''paid'' \<and> status d = ''served'')
      in (reply 200 True ''Order payment updated successfully'' []
            (DPayment (order_id d) (payment (f d)) (status (f d))),
          map (\<lambda>x. if order_id x = order_id d then f x else x) db))"
proof -
  have m: "get_prop (body req) ''method'' = Inr (safe_get (body req) ''method'')"
    using assms(1) by (rule get_prop_other)
  have id: "order_id (apply_updateData t st m' c d) = order_id d" for t st m' c
    by (simp add: apply_updateData_def Let_def)
  show ?thesis
    using assms(2-)
    by (simp add: updateOrderPayment_def assms(1) m lower_trim_def findById_by_id
                  findOneAndUpdate_by_id id Let_def del: set_simps)
qed











text \<open>
  \<open>createOrder\<close> alone reads a quantity of 0 as 1 (\<open>parseInt(...) || 1\<close>) and places the
  order; on the route a quantity below 1 is refused by \<open>validateOrder\<close> before the handler
  runs.
\<close>

lemma createOrder_defaults_quantity:
  "createOrder example_lib example_world []
     (example_request
        (JObj [(''items'', JArr [tea_item (JStr ''Tea'') (JNum (Fin 3)) (JNum (Fin 0))])])
        [] None)
   = (reply 201 True ''Order placed successfully'' []
        (DCreated ''64b000000000000000000003'' ''ORD-1001'' ''placed'' 3 1700000500),
      [\<lparr>order_id = ''64b000000000000000000003'', tableId = JNull, customerId = None,
        orderNumber = ''ORD-1001'', items = [tea\<lparr>qty := Fin 1\<rparr>], totals = 3,
        status = ''placed'', payment = schema_payment example_lib, meta = JObj [],
        createdAt = 1700000500\<rparr>])"
  by (simp add: eval_defs show_nat.simps)


text \<open>
  \<open>updateOrderPayment\<close> alone lower-cases and trims the status before it checks it, and
  answers 400 ``Invalid payment status'' when the result is not a payment status; on the
  route \<open>validateOrderPayment\<close> has checked the status as submitted before.
\<close>

lemma updateOrderPayment_normalizes_status:
  "fst (updateOrderPayment example_lib example_world example_db
     (example_request (JObj [(''status'', JStr '' PAID'')]) ''64b000000000000000000001''
        (Some sam)))
   = reply 200 True ''Order payment updated successfully'' []
       (DPayment ''64b000000000000000000001''
          \<lparr>pay_status = ''paid'', pay_method = None, paidAt = Some 1700000500,
            refundedAt = None\<rparr> ''completed'')"
  by (simp add: eval_defs char_of_def bit_Suc_0_iff)

lemma updateOrderPayment_rejects_after_normalizing:
  assumes "get_prop (body req) ''status'' = Inr (JStr s)"
      and "trim (toLowerCase s) \<notin> set validPaymentStatuses"
      and "normalize_method (safe_get (body req) ''method'') = Inr m"
  shows "updateOrderPayment L W db req =
           (reply 400 False ''Invalid payment status''
              [''Payment status must be one of: pending, paid, failed, refunded''] DNone, db)"
proof -
  have "get_prop (body req) ''method'' = Inr (safe_get (body req) ''method'')"
    using assms(1) by (rule get_prop_other)
  with assms show ?thesis
    by (simp add: updateOrderPayment_def lower_trim_def)
qed




section \<open>Claims\<close>

text \<open>
  C7. Whatever the request and whatever the outcome, \<open>updateOrderStatus\<close> leaves every
  order of the collection as it was up to its \<open>status\<close> field, and \<open>updateOrderPayment\<close>
  leaves every order as it was up to its \<open>payment\<close> sub-record and its \<open>status\<close> field.
  In particular neither changes the \<open>items\<close> or the \<open>totals\<close> of any order: the totals are
  computed at creation only.
\<close>

theorem updates_write_only_their_fields:
  "map (\<lambda>d. d\<lparr>status := []\<rparr>) (snd (updateOrderStatus L db req))
     = map (\<lambda>d. d\<lparr>status := []\<rparr>) db
   \<and> map (\<lambda>d. d\<lparr>status := [], payment := p\<rparr>) (snd (updateOrderPayment L W db req))
     = map (\<lambda>d. d\<lparr>status := [], payment := p\<rparr>) db
   \<and> map items (snd (updateOrderStatus L db req)) = map items db
   \<and> map totals (snd (updateOrderStatus L db req)) = map totals db
   \<and> map items (snd (updateOrderPayment L W db req)) = map items db
   \<and> map totals (snd (updateOrderPayment L W db req)) = map totals db"
proof (intro conjI)
  show "map (\<lambda>d. d\<lparr>status := []\<rparr>) (snd (updateOrderStatus L db req))
          = map (\<lambda>d. d\<lparr>status := []\<rparr>) db"
    by (rule updateOrderStatus_frame) simp
  show "map (\<lambda>d. d\<lparr>status := [], payment := p\<rparr>) (snd (updateOrderPayment L W db req))
          = map (\<lambda>d. d\<lparr>status := [], payment := p\<rparr>) db"
    by (rule updateOrderPayment_frame) simp_all
  show "map items (snd (updateOrderStatus L db req)) = map items db"
    by (rule updateOrderStatus_frame) simp
  show "map totals (snd (updateOrderStatus L db req)) = map totals db"
    by (rule updateOrderStatus_frame) simp
  show "map items (snd (updateOrderPayment L W db req)) = map items db"
    by (rule updateOrderPayment_frame) simp_all
  show "map totals (snd (updateOrderPayment L W db req)) = map totals db"
    by (rule updateOrderPayment_frame) simp_all
qed

text \<open>
  A payment update that does change the collection: paying the served order of Alice
  completes it, and the items and totals of both orders stay.
\<close>

theorem updates_write_only_their_fields_witness:
  "map status (snd (updateOrderPayment example_lib example_world example_db
      (example_request (JObj [(''status'', JStr ''paid'')]) ''64b000000000000000000001''
         (Some sam)))) = [''completed'', ''completed'']
   \<and> map items (snd (updateOrderPayment example_lib example_world example_db
      (example_request (JObj [(''status'', JStr ''paid'')]) ''64b000000000000000000001''
         (Some sam)))) = map items example_db
   \<and> map totals (snd (updateOrderPayment example_lib example_world example_db
      (example_request (JObj [(''status'', JStr ''paid'')]) ''64b000000000000000000001''
         (Some sam)))) = map totals example_db"
proof -
  have "map status (snd (updateOrderPayment example_lib example_world example_db
      (example_request (JObj [(''status'', JStr ''paid'')]) ''64b000000000000000000001''
         (Some sam)))) = [''completed'', ''completed'']"
    by (simp add: eval_defs)
  then show ?thesis
    using updates_write_only_their_fields [of example_lib example_db
      "example_request (JObj [(''status'', JStr ''paid'')]) ''64b000000000000000000001''
         (Some sam)" "schema_payment example_lib" example_world]
    by blast
qed

text \<open>
  C8. When the \<open>items\<close> of the body are missing, not an array or the empty array,
  \<open>createOrder\<close> answers 400 with the message ``Order must contain at least one item'' and
  leaves the collection as it was. The answer does not depend on the parameters with
  which line items are normalized and validated: that code is not reached.
\<close>

theorem createOrder_requires_items:
  assumes "get_prop (body req) ''items'' = Inr v"
      and "v = JUndefined \<or> \<not> isArray v \<or> v = JArr []"
  shows "createOrder L W db req =
           (reply 400 False ''Order must contain at least one item'' [] DNone, db)"
proof -
  from assms(1) obtain t m where
    "get_prop (body req) ''tableId'' = Inr t" "get_prop (body req) ''meta'' = Inr m"
    by (cases "body req") auto
  with assms show ?thesis
    by (auto simp: createOrder_def default_to_def isArray_def split: jsval.splits)
qed

theorem createOrder_requires_items_witness:
  "createOrder example_lib example_world example_db (example_request (JObj []) [] None)
     = (reply 400 False ''Order must contain at least one item'' [] DNone, example_db)
   \<and> createOrder example_lib example_world example_db
       (example_request (JObj [(''items'', JStr ''tea'')]) [] None)
     = (reply 400 False ''Order must contain at least one item'' [] DNone, example_db)
   \<and> createOrder example_lib example_world example_db
       (example_request (JObj [(''items'', JArr [])]) [] None)
     = (reply 400 False ''Order must contain at least one item'' [] DNone, example_db)"
  using createOrder_requires_items
          [of "example_request (JObj []) [] None" JUndefined example_lib example_world example_db]
        createOrder_requires_items
          [of "example_request (JObj [(''items'', JStr ''tea'')]) [] None" "JStr ''tea''"
              example_lib example_world example_db]
        createOrder_requires_items
          [of "example_request (JObj [(''items'', JArr [])]) [] None" "JArr []"
              example_lib example_world example_db]
  by (simp add: example_request_def isArray_def)

text \<open>
  C4. For an order of the collection (ids being unique), \<open>cancelOrder\<close> answers 404 and
  leaves the whole collection as it was when the status of the order is \<open>completed\<close> or
  \<open>canceled\<close>; otherwise it answers 200 and sets the status of that order, and nothing
  else, to \<open>canceled\<close>. The check and the write are the one \<open>findOneAndUpdate\<close> of the
  handler.
\<close>

theorem cancelOrder_guarded:
  assumes "castObjectId L (params_id req) = Some (order_id d)"
      and "d \<in> set db" and "distinct (map order_id db)"
  shows "cancelOrder L db req =
     (if status d \<in> set [''completed'', ''canceled'']
      then (reply 404 False ''Order not found or cannot be canceled'' [] DNone, db)
      else (reply 200 True ''Order canceled'' [] (DId (order_id d)),
            map (\<lambda>x. if order_id x = order_id d then x\<lparr>status := ''canceled''\<rparr> else x) db))"
  using assms by (simp add: cancelOrder_def findOneAndUpdate_by_id)

text \<open>Bob's completed order is refused and stays; Alice's served order is canceled.\<close>

theorem cancelOrder_guarded_witness:
  "cancelOrder example_lib example_db
      (example_request (JObj []) ''64b000000000000000000002'' (Some bob))
     = (reply 404 False ''Order not found or cannot be canceled'' [] DNone, example_db)
   \<and> cancelOrder example_lib example_db
      (example_request (JObj []) ''64b000000000000000000001'' (Some alice))
     = (reply 200 True ''Order canceled'' [] (DId ''64b000000000000000000001''),
        [example_order ''64b000000000000000000001'' (Some (user_id alice)) ''canceled'',
         example_order ''64b000000000000000000002'' (Some (user_id bob)) ''completed''])"
  using cancelOrder_guarded [of example_lib
          "example_request (JObj []) ''64b000000000000000000002'' (Some bob)"
          "example_order ''64b000000000000000000002'' (Some (user_id bob)) ''completed''"
          example_db]
        cancelOrder_guarded [of example_lib
          "example_request (JObj []) ''64b000000000000000000001'' (Some alice)"
          "example_order ''64b000000000000000000001'' (Some (user_id alice)) ''served''"
          example_db]
  by (simp add: example_request_def example_lib_def example_db_def example_order_def)

text \<open>
  C9. Behind the route \<open>POST /:id/cancel\<close> a request is answered by \<open>cancelOrder\<close> as
  soon as it is authenticated and its id has the format of an id: for every such user,
  whatever the role and whoever the customer of the order, an order that is neither
  completed nor canceled is canceled with a 200. No hypothesis mentions the role of the
  user or the customer of the order.
\<close>

theorem cancel_route_checks_no_owner_or_role:
  assumes "req_user req = Some u"
      and "isMongoId V (JStr (params_id req))"
      and "castObjectId L (params_id req) = Some (order_id d)"
      and "d \<in> set db" and "distinct (map order_id db)"
      and "status d \<notin> set [''completed'', ''canceled'']"
  shows "route_cancelOrder V L db req =
           (reply 200 True ''Order canceled'' [] (DId (order_id d)),
            map (\<lambda>x. if order_id x = order_id d then x\<lparr>status := ''canceled''\<rparr> else x) db)"
  using assms
  by (simp add: route_cancelOrder_def authenticate_def handleValidationErrors_def
                validate_id_def cancelOrder_def findOneAndUpdate_by_id)

text \<open>Bob, a customer, cancels the served order of Alice.\<close>

theorem cancel_route_checks_no_owner_or_role_witness:
  "\<not> is_staff bob
   \<and> customerId (example_order ''64b000000000000000000001'' (Some (user_id alice)) ''served'')
       \<noteq> Some (user_id bob)
   \<and> route_cancelOrder example_validators example_lib example_db
        (example_request (JObj []) ''64b000000000000000000001'' (Some bob))
     = (reply 200 True ''Order canceled'' [] (DId ''64b000000000000000000001''),
        [example_order ''64b000000000000000000001'' (Some (user_id alice)) ''canceled'',
         example_order ''64b000000000000000000002'' (Some (user_id bob)) ''completed''])"
proof -
  let ?req = "example_request (JObj []) ''64b000000000000000000001'' (Some bob)"
  let ?d = "example_order ''64b000000000000000000001'' (Some (user_id alice)) ''served''"
  have 1: "req_user ?req = Some bob" by (simp add: example_request_def)
  have 2: "isMongoId example_validators (JStr (params_id ?req))"
    by (simp add: example_validators_def example_request_def)
  have 3: "castObjectId example_lib (params_id ?req) = Some (order_id ?d)"
    by (simp add: example_lib_def example_request_def example_order_def)
  have 4: "?d \<in> set example_db" by (simp add: example_db_def)
  have 5: "distinct (map order_id example_db)"
    by (simp add: example_db_def example_order_def)
  have 6: "status ?d \<notin> set [''completed'', ''canceled'']" by (simp add: example_order_def)
  have 7: "\<not> is_staff bob" by (simp add: is_staff_def bob_def)
  have 8: "customerId ?d \<noteq> Some (user_id bob)"
    by (simp add: example_order_def alice_def bob_def)
  show ?thesis
    using 7 8 cancel_route_checks_no_owner_or_role [OF 1 2 3 4 5 6]
    by (simp add: example_db_def example_order_def)
qed

text \<open>
  C10. For a staff request whose status is one of placed, preparing, ready, served,
  canceled, completed (and is accepted by the validation chain of the route), the status
  update sets the status of the order with the given id to the requested value and
  answers 200, whatever the status of the order was; the handler alone does the same.
  No hypothesis mentions the current status.
\<close>

theorem status_update_ignores_current_status:
  assumes "req_user req = Some u" and "is_staff u"
      and "get_prop (body req) ''status'' = Inr (JStr s)" and "s \<in> set order_statuses"
      and "isIn V order_statuses (JStr s)"
      and "castObjectId L (params_id req) = Some (order_id d)"
      and "d \<in> set db" and "distinct (map order_id db)"
  shows "route_updateOrderStatus V L db req =
           (reply 200 True ''Order status updated'' [] (DStatus (order_id d) s),
            map (\<lambda>x. if order_id x = order_id d then x\<lparr>status := s\<rparr> else x) db)
       \<and> updateOrderStatus L db req = route_updateOrderStatus V L db req"
  using assms updateOrderStatus_by_id [of req s L d db]
  by (simp add: route_updateOrderStatus_def authenticate_def requireStaff_def
                handleValidationErrors_def validateOrderStatus_def safe_get_def)

text \<open>A completed order is moved back to placed.\<close>

theorem status_update_ignores_current_status_witness:
  "status (example_order ''64b000000000000000000002'' (Some (user_id bob)) ''completed'')
     = ''completed''
   \<and> route_updateOrderStatus example_validators example_lib example_db
        (example_request (JObj [(''status'', JStr ''placed'')]) ''64b000000000000000000002''
           (Some sam))
     = (reply 200 True ''Order status updated'' [] (DStatus ''64b000000000000000000002'' ''placed''),
        [example_order ''64b000000000000000000001'' (Some (user_id alice)) ''served'',
         example_order ''64b000000000000000000002'' (Some (user_id bob)) ''placed''])"
proof -
  let ?req = "example_request (JObj [(''status'', JStr ''placed'')])
                ''64b000000000000000000002'' (Some sam)"
  let ?d = "example_order ''64b000000000000000000002'' (Some (user_id bob)) ''completed''"
  have 1: "req_user ?req = Some sam" by (simp add: example_request_def)
  have 2: "is_staff sam" by (simp add: is_staff_def sam_def)
  have 3: "get_prop (body ?req) ''status'' = Inr (JStr ''placed'')"
    by (simp add: example_request_def)
  have 4: "''placed'' \<in> set order_statuses" by (simp add: order_statuses_def)
  have 5: "isIn example_validators order_statuses (JStr ''placed'')"
    by (simp add: example_validators_def order_statuses_def)
  have 6: "castObjectId example_lib (params_id ?req) = Some (order_id ?d)"
    by (simp add: example_lib_def example_request_def example_order_def)
  have 7: "?d \<in> set example_db" by (simp add: example_db_def)
  have 8: "distinct (map order_id example_db)"
    by (simp add: example_db_def example_order_def)
  show ?thesis
    using status_update_ignores_current_status [OF 1 2 3 4 5 6 7 8]
    by (simp add: example_db_def example_order_def)
qed

text \<open>
  C3. For an order of the collection (ids being unique) and a payment update whose status,
  lower-cased and trimmed, is a payment status, \<open>updateOrderPayment\<close> answers 200, stores
  that payment status, and the status of the order becomes \<open>completed\<close> when the payment
  status is \<open>paid\<close> and the order is \<open>served\<close>; in every other case the status of the
  order stays what it was. Only the payment sub-record and the status of that order change.
\<close>

theorem payment_completes_only_served_paid:
  fixes d :: "'t order"
  assumes "get_prop (body req) ''status'' = Inr (JStr s)"
      and "trim (toLowerCase s) \<in> set validPaymentStatuses"
      and "normalize_method (safe_get (body req) ''method'') = Inr m"
      and "castObjectId L (params_id req) = Some (order_id d)"
      and "d \<in> set db" and "distinct (map order_id db)"
  shows "\<exists>p. updateOrderPayment L W db req =
           (reply 200 True ''Order payment updated successfully'' []
              (DPayment (order_id d) p
                 (if trim (toLowerCase s) = ''paid'' \<and> status d = ''served''
                  then ''completed'' else status d)),
            map (\<lambda>x. if order_id x = order_id d
                      then x\<lparr>payment := p,
                             status := (if trim (toLowerCase s) = ''paid'' \<and> status d = ''served''
                                        then ''completed'' else status d)\<rparr>
                      else x) db)
         \<and> pay_status p = trim (toLowerCase s)"
proof -
  define st where "st = trim (toLowerCase s)"
  define p where "p = set_payment (now W) st m (payment d)"
  define st' where "st' = (if st = ''paid'' \<and> status d = ''served'' then ''completed'' else status d)"
  define f :: "'t order \<Rightarrow> 't order" where "f = apply_updateData (now W) st m (st = ''paid'' \<and> status d = ''served'')"
  have fd: "f d = d\<lparr>payment := p, status := st'\<rparr>"
    by (simp add: f_def p_def st'_def apply_updateData_def Let_def)
  have mp: "map (\<lambda>x. if order_id x = order_id d then f x else x) db
      = map (\<lambda>x. if order_id x = order_id d then x\<lparr>payment := p, status := st'\<rparr> else x) db"
  proof (rule map_cong [OF refl])
    fix x assume "x \<in> set db"
    then show "(if order_id x = order_id d then f x else x)
             = (if order_id x = order_id d then x\<lparr>payment := p, status := st'\<rparr> else x)"
      using assms(5,6) fd by (auto dest: unique_id)
  qed
  have up: "updateOrderPayment L W db req =
      (reply 200 True ''Order payment updated successfully'' []
            (DPayment (order_id d) (payment (f d)) (status (f d))),
          map (\<lambda>x. if order_id x = order_id d then f x else x) db)"
    unfolding f_def st_def using updateOrderPayment_by_id [OF assms, of W]
    by (simp only: Let_def)
  have main: "updateOrderPayment L W db req =
      (reply 200 True ''Order payment updated successfully'' [] (DPayment (order_id d) p st'),
       map (\<lambda>x. if order_id x = order_id d then x\<lparr>payment := p, status := st'\<rparr> else x) db)"
    unfolding up mp by (simp add: fd)
  have pp: "pay_status p = st" by (simp add: p_def set_payment_def)
  show ?thesis
    by (rule exI [of _ p]) (rule conjI [OF main [unfolded st'_def st_def] pp [unfolded st_def]])
qed

text \<open>Paying the served order completes it; a failed payment leaves it served.\<close>

theorem payment_completes_only_served_paid_witness:
  "map status (snd (updateOrderPayment example_lib example_world example_db
      (example_request (JObj [(''status'', JStr ''paid'')]) ''64b000000000000000000001''
         (Some sam)))) = [''completed'', ''completed'']
   \<and> map status (snd (updateOrderPayment example_lib example_world example_db
      (example_request (JObj [(''status'', JStr ''failed'')]) ''64b000000000000000000001''
         (Some sam)))) = [''served'', ''completed'']"
proof -
  let ?paid = "example_request (JObj [(''status'', JStr ''paid'')])
                 ''64b000000000000000000001'' (Some sam)"
  let ?failed = "example_request (JObj [(''status'', JStr ''failed'')])
                   ''64b000000000000000000001'' (Some sam)"
  let ?d = "example_order ''64b000000000000000000001'' (Some (user_id alice)) ''served''"
  have norm: "trim (toLowerCase ''paid'') = ''paid''" "trim (toLowerCase ''failed'') = ''failed''"
    by (simp_all add: trim_def toLowerCase_def upper_to_lower_def js_ws_def)
  have 1: "get_prop (body ?paid) ''status'' = Inr (JStr ''paid'')"
          "get_prop (body ?failed) ''status'' = Inr (JStr ''failed'')"
    by (simp_all add: example_request_def)
  have 2: "trim (toLowerCase ''paid'') \<in> set validPaymentStatuses"
          "trim (toLowerCase ''failed'') \<in> set validPaymentStatuses"
    by (simp_all add: norm validPaymentStatuses_def)
  have 3: "normalize_method (safe_get (body ?paid) ''method'') = Inr None"
          "normalize_method (safe_get (body ?failed) ''method'') = Inr None"
    by (simp_all add: example_request_def safe_get_def normalize_method_def)
  have 4: "castObjectId example_lib (params_id ?paid) = Some (order_id ?d)"
          "castObjectId example_lib (params_id ?failed) = Some (order_id ?d)"
    by (simp_all add: example_lib_def example_request_def example_order_def)
  have 5: "?d \<in> set example_db" by (simp add: example_db_def)
  have 6: "distinct (map order_id example_db)"
    by (simp add: example_db_def example_order_def)
  from payment_completes_only_served_paid [OF 1(1) 2(1) 3(1) 4(1) 5 6, of example_world]
  have a: "map status (snd (updateOrderPayment example_lib example_world example_db ?paid))
             = [''completed'', ''completed'']"
    by (auto simp: norm example_db_def example_order_def)
  from payment_completes_only_served_paid [OF 1(2) 2(2) 3(2) 4(2) 5 6, of example_world]
  have b: "map status (snd (updateOrderPayment example_lib example_world example_db ?failed))
             = [''served'', ''completed'']"
    by (auto simp: norm example_db_def example_order_def)
  from a b show ?thesis by simp
qed









end
